theory Spec2Isabelle
  imports Complex_Main "HOL-Library.AList" "HOL-Library.Sublist"
begin

section \<open>Python values used by the backend\<close>

text \<open>
  The backend of the implementation guide is Python. Exceptions are values: a function
  that can raise returns \<open>py_error + 'a\<close>, with \<open>Inl\<close> for the exception.
  \<open>ServiceError m\<close> stands for any exception raised by a hosted client (OpenAI, Qdrant,
  HTTP) with message \<open>m\<close>.
\<close>

datatype py_error = KeyError string | IndexError | ServiceError string

text \<open>\<open>str(e)\<close> of an exception, as used in the endpoint's error detail.\<close>

fun str_error :: "py_error \<Rightarrow> string" where
  "str_error (KeyError k) = [CHR 0x27] @ k @ [CHR 0x27]"
| "str_error IndexError = ''list index out of range''"
| "str_error (ServiceError m) = m"

text \<open>A dict with string keys and string values; \<open>d[k]\<close> raises, \<open>d.get(k, default)\<close> does not.\<close>

type_synonym pydict = "(string \<times> string) list"

definition dict_item :: "pydict \<Rightarrow> string \<Rightarrow> py_error + string" where
  "dict_item d k = (case map_of d k of None \<Rightarrow> Inl (KeyError k) | Some v \<Rightarrow> Inr v)"

definition dict_get :: "pydict \<Rightarrow> string \<Rightarrow> string \<Rightarrow> string" where
  "dict_get d k dflt = (case map_of d k of None \<Rightarrow> dflt | Some v \<Rightarrow> v)"

text \<open>Slices \<open>xs[lo:hi]\<close>, \<open>xs[lo:]\<close> and \<open>xs[:hi]\<close>: a negative bound counts from the end,
  and every bound is clamped to the list.\<close>

definition slice_bound :: "int \<Rightarrow> int \<Rightarrow> int" where
  "slice_bound n j = (if j < 0 then max 0 (j + n) else min j n)"

definition py_slice :: "'a list \<Rightarrow> int \<Rightarrow> int \<Rightarrow> 'a list" where
  "py_slice xs lo hi =
     (let n = int (length xs); l = slice_bound n lo; h = slice_bound n hi
      in take (nat (h - l)) (drop (nat l) xs))"

definition py_slice_from :: "'a list \<Rightarrow> int \<Rightarrow> 'a list" where
  "py_slice_from xs lo = drop (nat (slice_bound (int (length xs)) lo)) xs"

definition py_slice_to :: "'a list \<Rightarrow> int \<Rightarrow> 'a list" where
  "py_slice_to xs hi = take (nat (slice_bound (int (length xs)) hi)) xs"

text \<open>\<open>sep.join(ws)\<close>.\<close>

fun py_join :: "string \<Rightarrow> string list \<Rightarrow> string" where
  "py_join sep [] = []"
| "py_join sep [w] = w"
| "py_join sep (w # v # ws) = w @ sep @ py_join sep (v # ws)"

text \<open>A comprehension whose element expression can raise stops at the first exception.\<close>

fun map_result :: "('a \<Rightarrow> py_error + 'b) \<Rightarrow> 'a list \<Rightarrow> py_error + 'b list" where
  "map_result f [] = Inr []"
| "map_result f (x # xs) =
     (case f x of
        Inl e \<Rightarrow> Inl e
      | Inr y \<Rightarrow> (case map_result f xs of Inl e \<Rightarrow> Inl e | Inr ys \<Rightarrow> Inr (y # ys)))"


text \<open>
  Characters are Isabelle's \<open>char\<close>, read as code points below 256. \<open>is_space\<close> is
  Python's \<open>str.isspace\<close> (the class \<open>\s\<close> of \<open>re\<close>) and \<open>is_word\<close> the class \<open>\w\<close> on
  these code points; \<open>py_lower\<close> is \<open>str.lower\<close>.
\<close>

definition is_space :: "char \<Rightarrow> bool" where
  "is_space c =
     (let n = (of_char c :: nat)
      in (9 \<le> n \<and> n \<le> 13) \<or> (28 \<le> n \<and> n \<le> 32) \<or> n = 133 \<or> n = 160)"

definition is_word :: "char \<Rightarrow> bool" where
  "is_word c =
     (let n = (of_char c :: nat)
      in (48 \<le> n \<and> n \<le> 57) \<or> (65 \<le> n \<and> n \<le> 90) \<or> n = 95 \<or> (97 \<le> n \<and> n \<le> 122) \<or>
         n = 170 \<or> n = 178 \<or> n = 179 \<or> n = 181 \<or> n = 185 \<or> n = 186 \<or>
         (188 \<le> n \<and> n \<le> 190) \<or> (192 \<le> n \<and> n \<le> 214) \<or> (216 \<le> n \<and> n \<le> 246) \<or>
         (248 \<le> n \<and> n \<le> 255))"

definition py_lower :: "char \<Rightarrow> char" where
  "py_lower c =
     (let n = (of_char c :: nat)
      in if (65 \<le> n \<and> n \<le> 90) \<or> (192 \<le> n \<and> n \<le> 222 \<and> n \<noteq> 215)
         then char_of (n + 32) else c)"

text \<open>\<open>text.split()\<close>: the maximal runs of non-whitespace characters; \<open>w\<close> is the word
  being read.\<close>

fun split_words :: "string \<Rightarrow> string \<Rightarrow> string list" where
  "split_words w [] = (if w = [] then [] else [w])"
| "split_words w (c # cs) =
     (if is_space c
      then (if w = [] then split_words [] cs else w # split_words [] cs)
      else split_words (w @ [c]) cs)"

definition py_split :: "string \<Rightarrow> string list" where
  "py_split text = split_words [] text"

text \<open>\<open>s.split(sep)\<close> with a one-character separator: empty fields are kept.\<close>

fun split_on :: "char \<Rightarrow> string \<Rightarrow> string list" where
  "split_on sep [] = [ [] ]"
| "split_on sep (c # cs) =
     (if c = sep then [] # split_on sep cs
      else (case split_on sep cs of [] \<Rightarrow> [ [c] ] | w # ws \<Rightarrow> (c # w) # ws))"

text \<open>\<open>text.strip()\<close>.\<close>

definition py_strip :: "string \<Rightarrow> string" where
  "py_strip text = rev (dropWhile is_space (rev (dropWhile is_space text)))"

text \<open>\<open>str(i)\<close> for a natural number, as the f-string of a chunk id prints it.\<close>

fun str_nat :: "nat \<Rightarrow> string" where
  "str_nat n =
     (if n < 10 then [char_of (48 + n)]
      else str_nat (n div 10) @ [char_of (48 + n mod 10)])"

section \<open>The hosted services\<close>

text \<open>
  The embedding API, the Qdrant search and the chat-completion API are hosted services;
  the backend only calls them. Their answers are parameters of the model
  (\<open>services\<close>), and every call the backend makes is recorded, in order, in a trace of
  \<open>call\<close>s, so that "this path makes no embedding call" is a statement about the trace.
\<close>

record hit =
  hit_payload :: pydict
  hit_score :: real

record search_params =
  sp_collection_name :: string
  sp_query_vector :: "real list"
  sp_limit :: int
  sp_query_filter :: "(string \<times> string) list option"

text \<open>A Qdrant point: its id is the document's \<open>id\<close> string or, without one, its index.\<close>

datatype point_id = StrId string | IntId nat

record point =
  point_id :: point_id
  point_vector :: "real list"
  point_payload :: pydict

text \<open>
  What BeautifulSoup finds in a fetched page: the text of its \<open>title\<close> element, if any, and
  the text of its main content (\<open>article\<close>, \<open>main\<close> or \<open>body\<close>, without scripts, styles,
  navigation and footer), if any.
\<close>

record page =
  page_title :: "string option"
  page_main_text :: "string option"

text \<open>A chat message is a dict: \<open>{"role": _, "content": _}\<close> for those the engine builds.\<close>

type_synonym message = pydict

record chat_request =
  cr_model :: string
  cr_messages :: "message list"
  cr_temperature :: real
  cr_max_tokens :: nat

text \<open>
  What the hosted chat model does with a request: it completes with the contents of its
  choices, or it fails with an exception after having generated some (possibly empty)
  text. The engine's call is not streamed: it gets the completed reply or the exception.
\<close>

datatype llm_outcome =
    Completed "string list"
  | Interrupted string py_error

datatype call =
    EmbeddingsCreate string string
  | QdrantSearch search_params
  | QdrantUpsert string "point list"
  | ChatCompletionsCreate chat_request
  | HttpGet string

record services =
  embeddings_create :: "string \<Rightarrow> string \<Rightarrow> py_error + real list list"
  qdrant_search :: "search_params \<Rightarrow> py_error + hit list"
  chat_completions_create :: "chat_request \<Rightarrow> llm_outcome"
  http_get :: "string \<Rightarrow> py_error + string"
  parse_html :: "string \<Rightarrow> page"

section \<open>vector_store.py\<close>

record VectorStore =
  collection_name :: string
  embedding_dimension :: nat

text \<open>\<open>VectorStore.__init__\<close>; \<open>env\<close> is the process environment read by \<open>os.getenv\<close>.\<close>

definition VectorStore_init :: "pydict \<Rightarrow> VectorStore" where
  "VectorStore_init env =
     \<lparr>collection_name = dict_get env ''QDRANT_COLLECTION'' ''physical_ai_textbook'',
      embedding_dimension = 1536\<rparr>"

text \<open>\<open>VectorStore.get_embedding\<close>: the first item of the reply's data.\<close>

definition get_embedding :: "services \<Rightarrow> string \<Rightarrow> call list \<times> (py_error + real list)" where
  "get_embedding sv text =
     ([EmbeddingsCreate ''text-embedding-3-small'' text],
      (case embeddings_create sv ''text-embedding-3-small'' text of
         Inl e \<Rightarrow> Inl e
       | Inr data \<Rightarrow> (case data of [] \<Rightarrow> Inl IndexError | v # _ \<Rightarrow> Inr v)))"

record metadata =
  meta_module :: string
  meta_chapter :: string

record search_result =
  doc_content :: string
  doc_title :: string
  doc_url :: string
  doc_score :: real
  doc_metadata :: metadata

text \<open>The dict built for one hit in the comprehension that ends \<open>VectorStore.search\<close>.\<close>

definition hit_result :: "hit \<Rightarrow> py_error + search_result" where
  "hit_result h =
     (case dict_item (hit_payload h) ''content'' of
        Inl e \<Rightarrow> Inl e
      | Inr c \<Rightarrow>
          Inr \<lparr>doc_content = c,
               doc_title = dict_get (hit_payload h) ''title'' '''',
               doc_url = dict_get (hit_payload h) ''url'' '''',
               doc_score = hit_score h,
               doc_metadata = \<lparr>meta_module = dict_get (hit_payload h) ''module'' '''',
                               meta_chapter = dict_get (hit_payload h) ''chapter'' ''''\<rparr>\<rparr>)"

text \<open>\<open>VectorStore.search\<close>. \<open>if filter_conditions:\<close> holds for a non-empty dict only.\<close>

definition search ::
  "VectorStore \<Rightarrow> services \<Rightarrow> string \<Rightarrow> int \<Rightarrow> pydict option
     \<Rightarrow> call list \<times> (py_error + search_result list)" where
  "search vs sv query limit filter_conditions =
     (case get_embedding sv query of
        (t, Inl e) \<Rightarrow> (t, Inl e)
      | (t, Inr query_vector) \<Rightarrow>
          (let search_params =
                 \<lparr>sp_collection_name = collection_name vs,
                  sp_query_vector = query_vector,
                  sp_limit = limit,
                  sp_query_filter =
                    (case filter_conditions of
                       None \<Rightarrow> None
                     | Some d \<Rightarrow> if d = [] then None else Some d)\<rparr>
           in (t @ [QdrantSearch search_params],
               (case qdrant_search sv search_params of
                  Inl e \<Rightarrow> Inl e
                | Inr results \<Rightarrow> map_result hit_result results))))"

text \<open>
  The Qdrant server holds named collections; a collection has the parameters it was
  created with and its points, keyed by point id. The server accepts as point id an
  unsigned 64-bit integer or a UUID (written plain, with hyphens, or as a URN), and as
  vector one of the collection's size; an upsert with another id or vector is refused.
  An accepted upsert overwrites the point that has the same id and adds the others.
\<close>

definition is_hex :: "char \<Rightarrow> bool" where
  "is_hex c =
     (let n = (of_char c :: nat)
      in (48 \<le> n \<and> n \<le> 57) \<or> (65 \<le> n \<and> n \<le> 70) \<or> (97 \<le> n \<and> n \<le> 102))"

definition uuid_hyphenated :: "string \<Rightarrow> bool" where
  "uuid_hyphenated s =
     (map length (split_on CHR ''-'' s) = [8, 4, 4, 4, 12]
      \<and> list_all (list_all is_hex) (split_on CHR ''-'' s))"

definition is_uuid :: "string \<Rightarrow> bool" where
  "is_uuid s =
     ((length s = 32 \<and> list_all is_hex s)
      \<or> uuid_hyphenated s
      \<or> (take 9 s = ''urn:uuid:'' \<and> uuid_hyphenated (drop 9 s)))"

fun valid_point_id :: "point_id \<Rightarrow> bool" where
  "valid_point_id (IntId n) = (n < 2 ^ 64)"
| "valid_point_id (StrId s) = is_uuid s"

datatype distance = COSINE | EUCLID | DOT

record collection_info =
  vectors_size :: nat
  vectors_distance :: distance
  points :: "(point_id \<times> point) list"

type_synonym qdrant = "(string \<times> collection_info) list"

definition qdrant_upsert :: "string \<Rightarrow> point list \<Rightarrow> qdrant \<Rightarrow> py_error + qdrant" where
  "qdrant_upsert name ps q =
     (case map_of q name of
        None \<Rightarrow> Inl (ServiceError ''Collection not found'')
      | Some c \<Rightarrow>
          if \<not> list_all (\<lambda>p. valid_point_id (point_id p)) ps
          then Inl (ServiceError ''Not a valid point ID'')
          else if \<not> list_all (\<lambda>p. length (point_vector p) = vectors_size c) ps
          then Inl (ServiceError ''Vector dimension error'')
          else Inr (AList.update name
                      (c\<lparr>points := fold (\<lambda>p. AList.update (point_id p) p) ps (points c)\<rparr>)
                      q))"

text \<open>\<open>VectorStore.initialize\<close>: the collection is created when \<open>get_collection\<close> raises.\<close>

definition initialize :: "VectorStore \<Rightarrow> qdrant \<Rightarrow> qdrant" where
  "initialize vs q =
     (case map_of q (collection_name vs) of
        Some c \<Rightarrow> q
      | None \<Rightarrow>
          q @ [(collection_name vs,
                \<lparr>vectors_size = embedding_dimension vs, vectors_distance = COSINE,
                 points = []\<rparr>)])"

text \<open>\<open>VectorStore.add_documents\<close>: the loop that builds the points (\<open>i\<close> is the index
  \<open>enumerate\<close> gives), then one upsert of all of them.\<close>

fun build_points :: "services \<Rightarrow> nat \<Rightarrow> pydict list \<Rightarrow> call list \<times> (py_error + point list)" where
  "build_points sv i [] = ([], Inr [])"
| "build_points sv i (doc # docs) =
     (case dict_item doc ''content'' of
        Inl e \<Rightarrow> ([], Inl e)
      | Inr c \<Rightarrow>
          (case get_embedding sv c of
             (t, Inl e) \<Rightarrow> (t, Inl e)
           | (t, Inr embedding) \<Rightarrow>
               (let pt = \<lparr>point_id = (case map_of doc ''id'' of None \<Rightarrow> IntId i | Some s \<Rightarrow> StrId s),
                          point_vector = embedding,
                          point_payload =
                            [(''content'', c),
                             (''title'', dict_get doc ''title'' []),
                             (''url'', dict_get doc ''url'' []),
                             (''module'', dict_get doc ''module'' []),
                             (''chapter'', dict_get doc ''chapter'' [])]\<rparr>
                in (case build_points sv (Suc i) docs of
                      (t', Inl e) \<Rightarrow> (t @ t', Inl e)
                    | (t', Inr pts) \<Rightarrow> (t @ t', Inr (pt # pts))))))"

definition add_documents ::
  "VectorStore \<Rightarrow> services \<Rightarrow> pydict list \<Rightarrow> qdrant \<Rightarrow> call list \<times> (py_error + qdrant)" where
  "add_documents vs sv documents q =
     (case build_points sv 0 documents of
        (t, Inl e) \<Rightarrow> (t, Inl e)
      | (t, Inr pts) \<Rightarrow>
          (t @ [QdrantUpsert (collection_name vs) pts],
           qdrant_upsert (collection_name vs) pts q))"




text \<open>The points that the upsert calls of a trace send, and the stored point of a
  collection with a given id.\<close>

fun upserted :: "call list \<Rightarrow> point list" where
  "upserted [] = []"
| "upserted (QdrantUpsert name pts # t) = pts @ upserted t"
| "upserted (c # t) = upserted t"


section \<open>document_processor.py\<close>

record DocumentProcessor =
  chunk_size :: int
  chunk_overlap :: int

text \<open>\<open>DocumentProcessor.__init__\<close>, and the instance \<open>DocumentProcessor()\<close> with its
  default arguments that the engine creates.\<close>

definition DocumentProcessor_init :: "int \<Rightarrow> int \<Rightarrow> DocumentProcessor" where
  "DocumentProcessor_init csize coverlap = \<lparr>chunk_size = csize, chunk_overlap = coverlap\<rparr>"

definition DocumentProcessor_default :: DocumentProcessor where
  "DocumentProcessor_default = DocumentProcessor_init 1000 200"

text \<open>\<open>DocumentProcessor._clean_text\<close>: runs of whitespace become one space (\<open>in_run\<close>
  says that the previous character was whitespace), characters outside the kept classes
  are removed, and the text is stripped.\<close>

fun collapse_spaces :: "bool \<Rightarrow> string \<Rightarrow> string" where
  "collapse_spaces in_run [] = []"
| "collapse_spaces in_run (c # cs) =
     (if is_space c
      then (if in_run then collapse_spaces True cs else CHR '' '' # collapse_spaces True cs)
      else c # collapse_spaces False cs)"

definition clean_text :: "string \<Rightarrow> string" where
  "clean_text text =
     py_strip (filter (\<lambda>c. is_word c \<or> is_space c \<or> c \<in> set ''.,;:!?-()'')
                 (collapse_spaces False text))"

text \<open>
  \<open>DocumentProcessor._chunk_text\<close>. The \<open>while\<close> loop adds \<open>chunk_size - chunk_overlap\<close>
  to \<open>i\<close> and does not end when that step is not positive, so the loop is a partial
  function: \<open>None\<close> is "does not return".
\<close>

partial_function (option) chunk_loop ::
  "int \<Rightarrow> int \<Rightarrow> string list \<Rightarrow> int \<Rightarrow> string list \<Rightarrow> string list option" where
  "chunk_loop csize coverlap words i chunks =
     (if i < int (length words)
      then chunk_loop csize coverlap words (i + (csize - coverlap))
             (chunks @ [py_join '' '' (py_slice words i (i + csize))])
      else Some chunks)"

definition chunk_text :: "DocumentProcessor \<Rightarrow> string \<Rightarrow> string list option" where
  "chunk_text dp text = chunk_loop (chunk_size dp) (chunk_overlap dp) (py_split text) 0 []"

text \<open>The loop of \<open>process_url\<close> over the parts of the URL: the first part that contains
  \<open>module\<close> (in any case) is the module, the part after it, if any, the chapter.\<close>

fun find_module :: "string list \<Rightarrow> string \<times> string" where
  "find_module [] = ([], [])"
| "find_module (part # rest) =
     (if sublist ''module'' (map py_lower part)
      then (part, (case rest of [] \<Rightarrow> [] | nxt # _ \<Rightarrow> nxt))
      else find_module rest)"

text \<open>The document objects created for the chunks of one page.\<close>

definition chunk_documents ::
  "string \<Rightarrow> string \<Rightarrow> string \<Rightarrow> string \<Rightarrow> string list \<Rightarrow> pydict list" where
  "chunk_documents url title modul chap chunks =
     map (\<lambda>(i, chunk).
            [(''id'', url @ ''_'' @ str_nat i),
             (''content'', chunk),
             (''title'', title),
             (''url'', url),
             (''module'', modul),
             (''chapter'', chap)])
         (enumerate 0 chunks)"

text \<open>\<open>DocumentProcessor.process_url\<close>.\<close>

definition process_url ::
  "DocumentProcessor \<Rightarrow> services \<Rightarrow> string
     \<Rightarrow> (call list \<times> (py_error + pydict list)) option" where
  "process_url dp sv url =
     (case http_get sv url of
        Inl e \<Rightarrow> Some ([HttpGet url], Inl e)
      | Inr html \<Rightarrow>
          (let soup = parse_html sv html;
               title = (case page_title soup of None \<Rightarrow> url | Some t \<Rightarrow> t)
           in (case page_main_text soup of
                 None \<Rightarrow> Some ([HttpGet url], Inr [])
               | Some raw \<Rightarrow>
                   (let text = clean_text raw;
                        mc = find_module (split_on CHR ''/'' url)
                    in (case chunk_text dp text of
                          None \<Rightarrow> None
                        | Some chunks \<Rightarrow>
                            Some ([HttpGet url],
                                  Inr (chunk_documents url title (fst mc) (snd mc) chunks)))))))"

section \<open>rag_engine.py\<close>

record RAGEngine =
  vector_store :: VectorStore
  doc_processor :: DocumentProcessor
  model :: string

definition RAGEngine_init :: "pydict \<Rightarrow> RAGEngine" where
  "RAGEngine_init env =
     \<lparr>vector_store = VectorStore_init env,
      doc_processor = DocumentProcessor_default,
      model = dict_get env ''OPENAI_MODEL'' ''gpt-4o''\<rparr>"

text \<open>\<open>RAGEngine._get_system_prompt\<close>.\<close>

definition get_system_prompt :: "bool \<Rightarrow> string" where
  "get_system_prompt is_selected_text =
     (if is_selected_text then
        ''You are an expert teaching assistant for the Physical AI & Humanoid Robotics course.\<newline>'' @
        ''The user has selected specific text from the textbook and is asking about it.\<newline>'' @
        ''Answer their question based ONLY on the selected text provided.\<newline>'' @
        ''Be clear, concise, and educational. If the selected text doesn't contain enough information to answer fully, say so.''
      else
        ''You are an expert teaching assistant for the Physical AI & Humanoid Robotics course.\<newline>'' @
        ''This course covers:\<newline>'' @
        ''- Module 1: ROS 2 (Robot Operating System)\<newline>'' @
        ''- Module 2: Gazebo & Unity simulation\<newline>'' @
        ''- Module 3: NVIDIA Isaac platform\<newline>'' @
        ''- Module 4: Vision-Language-Action (VLA) models\<newline>'' @
        ''\<newline>'' @
        ''Use the provided context from the textbook to answer questions accurately.\<newline>'' @
        ''Provide clear explanations suitable for students learning robotics and AI.\<newline>'' @
        ''Reference specific modules or sections when relevant.\<newline>'' @
        ''If you're not certain about something, acknowledge it.'')"

text \<open>\<open>RAGEngine._format_query\<close>.\<close>

definition format_query :: "string \<Rightarrow> string \<Rightarrow> bool \<Rightarrow> string" where
  "format_query question context is_selected =
     (if is_selected then
        ''Selected Text:\<newline>'' @ context @ ''\<newline>\<newline>Question: '' @ question @
        ''\<newline>\<newline>Please answer based on the selected text above.''
      else
        ''Context from textbook:\<newline>'' @ context @ ''\<newline>\<newline>Question: '' @ question @
        ''\<newline>\<newline>Please provide a helpful answer based on the context above.'')"

text \<open>An entry of the \<open>sources\<close> list of a reply: \<open>{"type": "selected_text", "content": _}\<close>
  or \<open>{"title": _, "url": _, "excerpt": _, "relevance_score": _}\<close>.\<close>

datatype source =
    SelectedText string
  | Retrieved string string string real

record query_result =
  answer :: string
  sources :: "source list"
  context_used :: bool

text \<open>
  \<open>RAGEngine.query\<close>, in three parts that follow its text: the context (the
  \<open>if selected_text: ... else: ...\<close> block), the message list, and the call of the
  chat-completion API. \<open>if selected_text:\<close> and \<open>if conversation_history:\<close> hold for a value
  that is neither \<open>None\<close> nor empty.
\<close>

definition retrieved_context :: "search_result list \<Rightarrow> string" where
  "retrieved_context retrieved_docs =
     py_join ''\<newline>\<newline>''
       (map (\<lambda>doc. ''[Source: '' @ doc_title doc @ '']\<newline>'' @ doc_content doc) retrieved_docs)"

definition retrieved_sources :: "search_result list \<Rightarrow> source list" where
  "retrieved_sources retrieved_docs =
     map (\<lambda>doc. Retrieved (doc_title doc) (doc_url doc) (py_slice_to (doc_content doc) 200)
                   (doc_score doc)) retrieved_docs"

definition query_context ::
  "RAGEngine \<Rightarrow> services \<Rightarrow> string \<Rightarrow> string option
     \<Rightarrow> call list \<times> (py_error + string \<times> source list \<times> bool)" where
  "query_context eng sv question selected_text =
     (case (case selected_text of None \<Rightarrow> None | Some s \<Rightarrow> if s = [] then None else Some s) of
        Some s \<Rightarrow> ([], Inr (s, [SelectedText (py_slice_to s 200)], True))
      | None \<Rightarrow>
          (case search (vector_store eng) sv question 5 None of
             (t, Inl e) \<Rightarrow> (t, Inl e)
           | (t, Inr retrieved_docs) \<Rightarrow>
               (t, Inr (retrieved_context retrieved_docs,
                        retrieved_sources retrieved_docs, False))))"

definition query_messages ::
  "string \<Rightarrow> string \<Rightarrow> bool \<Rightarrow> message list option \<Rightarrow> message list" where
  "query_messages question context used conversation_history =
     [ [(''role'', ''system''), (''content'', get_system_prompt used)] ] @
     (case conversation_history of
        None \<Rightarrow> []
      | Some h \<Rightarrow> if h = [] then [] else py_slice_from h (- 5)) @
     [ [(''role'', ''user''), (''content'', format_query question context used)] ]"

definition query ::
  "RAGEngine \<Rightarrow> services \<Rightarrow> string \<Rightarrow> string option \<Rightarrow> string option
     \<Rightarrow> message list option \<Rightarrow> call list \<times> (py_error + query_result)" where
  "query eng sv question selected_text context_url conversation_history =
     (case query_context eng sv question selected_text of
        (t, Inl e) \<Rightarrow> (t, Inl e)
      | (t, Inr (context, srcs, used)) \<Rightarrow>
          (let request =
                 \<lparr>cr_model = model eng,
                  cr_messages = query_messages question context used conversation_history,
                  cr_temperature = 7 / 10,
                  cr_max_tokens = 1000\<rparr>
           in (t @ [ChatCompletionsCreate request],
               (case chat_completions_create sv request of
                  Interrupted partial e \<Rightarrow> Inl e
                | Completed choices \<Rightarrow>
                    (case choices of
                       [] \<Rightarrow> Inl IndexError
                     | a # _ \<Rightarrow>
                         Inr \<lparr>answer = a, sources = srcs, context_used = used\<rparr>)))))"

text \<open>\<open>RAGEngine.ingest_documents\<close>: the loop over the URLs, then \<open>add_documents\<close>; the
  result is the number of documents and the server's new state.\<close>

fun collect_documents ::
  "DocumentProcessor \<Rightarrow> services \<Rightarrow> string list
     \<Rightarrow> (call list \<times> (py_error + pydict list)) option" where
  "collect_documents dp sv [] = Some ([], Inr [])"
| "collect_documents dp sv (url # urls) =
     (case process_url dp sv url of
        None \<Rightarrow> None
      | Some (t, Inl e) \<Rightarrow> Some (t, Inl e)
      | Some (t, Inr doc_chunks) \<Rightarrow>
          (case collect_documents dp sv urls of
             None \<Rightarrow> None
           | Some (t', Inl e) \<Rightarrow> Some (t @ t', Inl e)
           | Some (t', Inr documents) \<Rightarrow> Some (t @ t', Inr (doc_chunks @ documents))))"

definition ingest_documents ::
  "RAGEngine \<Rightarrow> services \<Rightarrow> string list \<Rightarrow> qdrant
     \<Rightarrow> (call list \<times> (py_error + nat \<times> qdrant)) option" where
  "ingest_documents eng sv urls q =
     (case collect_documents (doc_processor eng) sv urls of
        None \<Rightarrow> None
      | Some (t, Inl e) \<Rightarrow> Some (t, Inl e)
      | Some (t, Inr documents) \<Rightarrow>
          (case add_documents (vector_store eng) sv documents q of
             (t', Inl e) \<Rightarrow> Some (t @ t', Inl e)
           | (t', Inr q') \<Rightarrow> Some (t @ t', Inr (length documents, q'))))"

section \<open>main.py\<close>

record QueryRequest =
  rq_question :: string
  rq_selected_text :: "string option"
  rq_context_url :: "string option"
  rq_conversation_history :: "message list option"

text \<open>A response of the API: the reply with status 200, the framework's answer 422 to a
  body that fails the validation of \<open>QueryRequest\<close>, or an \<open>HTTPException\<close> with its
  status and detail.\<close>

datatype http_response =
    Response200 query_result
  | RequestValidationError
  | HTTPException nat string

fun status_code :: "http_response \<Rightarrow> nat" where
  "status_code (Response200 r) = 200"
| "status_code RequestValidationError = 422"
| "status_code (HTTPException status detail) = status"

text \<open>The handler \<open>query_textbook\<close> of \<open>POST /api/query\<close>.\<close>

definition query_textbook ::
  "RAGEngine \<Rightarrow> services \<Rightarrow> QueryRequest \<Rightarrow> call list \<times> http_response" where
  "query_textbook eng sv request =
     (case query eng sv (rq_question request) (rq_selected_text request)
             (rq_context_url request) (rq_conversation_history request) of
        (t, Inr result) \<Rightarrow> (t, Response200 result)
      | (t, Inl e) \<Rightarrow>
          (t, HTTPException 500 (''Query processing failed: '' @ str_error e)))"

text \<open>
  The route: \<open>@app.post("/api/query")\<close> declares the body as the handler's only parameter
  and no dependency, so the headers of the request do not reach the handler. The body is
  validated first: \<open>question\<close> has \<open>min_length=1\<close> and \<open>max_length=1000\<close>.
\<close>

definition post_api_query ::
  "RAGEngine \<Rightarrow> services \<Rightarrow> pydict \<Rightarrow> QueryRequest \<Rightarrow> call list \<times> http_response" where
  "post_api_query eng sv headers body =
     (if length (rq_question body) < 1 \<or> 1000 < length (rq_question body)
      then ([], RequestValidationError)
      else query_textbook eng sv body)"

section \<open>ChatWidget.jsx\<close>

text \<open>
  A message of the widget; \<open>wm_content = None\<close> is JavaScript's \<open>undefined\<close>. The reply
  the widget gets for its request is \<open>Some\<close> of the server's response, or \<open>None\<close> when
  \<open>fetch\<close> or \<open>response.json()\<close> throws.
\<close>

record widget_message =
  wm_role :: string
  wm_content :: "string option"
  wm_sources :: "source list option"
  wm_context_used :: "bool option"
  wm_selected_context :: bool
  wm_error :: bool

record ChatWidget =
  messages :: "widget_message list"
  input :: string
  isLoading :: bool
  selectedText :: string

definition js_space :: "char \<Rightarrow> bool" where
  "js_space c = (let n = (of_char c :: nat) in (9 \<le> n \<and> n \<le> 13) \<or> n = 32 \<or> n = 160)"

definition js_trim :: "string \<Rightarrow> string" where
  "js_trim s = rev (dropWhile js_space (rev (dropWhile js_space s)))"

text \<open>The body of the request that \<open>sendMessage\<close> posts; \<open>JSON.stringify\<close> leaves an
  undefined \<open>content\<close> out.\<close>

definition widget_request :: "ChatWidget \<Rightarrow> string \<Rightarrow> QueryRequest" where
  "widget_request w href =
     \<lparr>rq_question = input w,
      rq_selected_text = (if selectedText w = [] then None else Some (selectedText w)),
      rq_context_url = Some href,
      rq_conversation_history =
        Some (map (\<lambda>m. (''role'', wm_role m) #
                          (case wm_content m of None \<Rightarrow> [] | Some c \<Rightarrow> [(''content'', c)]))
                (py_slice_from (messages w) (- 5)))\<rparr>"

text \<open>\<open>data.answer\<close>, \<open>data.sources\<close> and \<open>data.context_used\<close> of the parsed body: an error
  response has the body \<open>{"detail": ...}\<close>, in which they are undefined.\<close>

definition undefined_message :: widget_message where
  "undefined_message =
     \<lparr>wm_role = ''assistant'', wm_content = None,
      wm_sources = None, wm_context_used = None,
      wm_selected_context = False, wm_error = False\<rparr>"

definition assistant_message :: "http_response \<Rightarrow> widget_message" where
  "assistant_message resp =
     (case resp of
        Response200 r \<Rightarrow>
          \<lparr>wm_role = ''assistant'', wm_content = Some (answer r),
           wm_sources = Some (sources r), wm_context_used = Some (context_used r),
           wm_selected_context = False, wm_error = False\<rparr>
      | RequestValidationError \<Rightarrow> undefined_message
      | HTTPException status detail \<Rightarrow> undefined_message)"

text \<open>\<open>sendMessage\<close>, with the reply to its request as \<open>network\<close>.\<close>

definition sendMessage ::
  "ChatWidget \<Rightarrow> string \<Rightarrow> (QueryRequest \<Rightarrow> http_response option) \<Rightarrow> ChatWidget" where
  "sendMessage w href network =
     (if js_trim (input w) = [] \<or> isLoading w then w
      else
        (let userMessage =
               \<lparr>wm_role = ''user'', wm_content = Some (input w),
                wm_sources = None, wm_context_used = None,
                wm_selected_context = (selectedText w \<noteq> []), wm_error = False\<rparr>
         in (case network (widget_request w href) of
               Some resp \<Rightarrow>
                 \<lparr>messages = messages w @ [userMessage, assistant_message resp],
                  input = [], isLoading = False, selectedText = []\<rparr>
             | None \<Rightarrow>
                 \<lparr>messages = messages w @
                    [userMessage,
                     \<lparr>wm_role = ''assistant'',
                      wm_content = Some ''Sorry, I encountered an error. Please try again.'',
                      wm_sources = None, wm_context_used = None,
                      wm_selected_context = False, wm_error = True\<rparr>],
                  input = [], isLoading = False, selectedText = selectedText w\<rparr>)))"

section \<open>Example inputs\<close>

text \<open>Concrete services, a history and hits, on which the theorems below are instantiated.\<close>

definition example_history :: "message list" where
  "example_history =
     [ [(''role'', ''user''), (''content'', ''m1'')], [(''role'', ''assistant''), (''content'', ''m2'')],
      [(''role'', ''user''), (''content'', ''m3'')], [(''role'', ''assistant''), (''content'', ''m4'')],
      [(''role'', ''user''), (''content'', ''m5'')], [(''role'', ''assistant''), (''content'', ''m6'')],
      [(''role'', ''user''), (''content'', ''m7'')] ]"

definition example_hits :: "hit list" where
  "example_hits =
     [\<lparr>hit_payload = [(''content'', ''ROS 2 is a middleware.''), (''title'', ''ROS 2 basics''),
                       (''url'', ''https://site/docs/module-1/ros2-basics'')],
       hit_score = 9 / 10\<rparr>,
      \<lparr>hit_payload = [(''content'', ''Nodes talk over topics.''), (''title'', ''Nodes''),
                       (''url'', ''https://site/docs/module-1/nodes-topics'')],
       hit_score = 1 / 2\<rparr>]"

definition example_services :: services where
  "example_services =
     \<lparr>embeddings_create = (\<lambda>m t. Inr [ [1, 0, 0] ]),
      qdrant_search =
        (\<lambda>p. if sp_limit p < 0 then Inl (ServiceError ''limit must not be negative'')
             else Inr (take (nat (sp_limit p)) example_hits)),
      chat_completions_create = (\<lambda>r. Completed [''ROS 2 is a middleware.'']),
      http_get = (\<lambda>u. Inr ''<html/>''),
      parse_html = (\<lambda>h. \<lparr>page_title = Some ''Intro'', page_main_text = Some ''a b c d e''\<rparr>)\<rparr>"

definition example_request :: QueryRequest where
  "example_request =
     \<lparr>rq_question = ''What is ROS 2?'', rq_selected_text = None,
      rq_context_url = Some ''https://example.com'', rq_conversation_history = Some []\<rparr>"

text \<open>The same services with an empty collection, with an embedding API that is down, and
  with a chat model that fails after it has generated \<open>Hello\<close>.\<close>

definition empty_store_services :: services where
  "empty_store_services = example_services\<lparr>qdrant_search := (\<lambda>p. Inr [])\<rparr>"

definition failing_search_services :: services where
  "failing_search_services =
     example_services\<lparr>embeddings_create :=
        (\<lambda>m t. Inl (ServiceError ''embedding service unavailable''))\<rparr>"

definition interrupted_services :: services where
  "interrupted_services =
     example_services\<lparr>chat_completions_create :=
        (\<lambda>r. Interrupted ''Hello'' (ServiceError ''connection reset''))\<rparr>"

definition example_widget :: ChatWidget where
  "example_widget =
     \<lparr>messages = [], input = ''What is ROS 2?'', isLoading = False, selectedText = []\<rparr>"

text \<open>
  For the upsert: an embedding API that returns the vector of 1536 components \<open>x\<close>, the
  document of a chunk \<open>c\<close> of the source \<open>u\<close> without an id (its point id is its index), the
  point that \<open>add_documents\<close> builds for it at index \<open>i\<close>, the textbook collection that
  holds given points, and the URLs of two pages.
\<close>

definition ingest_services :: "real \<Rightarrow> services" where
  "ingest_services x =
     example_services\<lparr>embeddings_create := (\<lambda>m t. Inr [replicate 1536 x])\<rparr>"

definition source_chunk :: "string \<Rightarrow> string \<Rightarrow> pydict" where
  "source_chunk u c = [(''content'', c), (''title'', ''Intro''), (''url'', u)]"

definition chunk_point :: "nat \<Rightarrow> string \<Rightarrow> string \<Rightarrow> real \<Rightarrow> point" where
  "chunk_point i u c x =
     \<lparr>point_id = IntId i, point_vector = replicate 1536 x,
      point_payload = [(''content'', c), (''title'', ''Intro''), (''url'', u),
                       (''module'', []), (''chapter'', [])]\<rparr>"

definition textbook :: "point list \<Rightarrow> qdrant" where
  "textbook pts =
     [(''physical_ai_textbook'',
       \<lparr>vectors_size = 1536, vectors_distance = COSINE,
        points = map (\<lambda>p. (point_id p, p)) pts\<rparr>)]"



section \<open>Properties of the engine's query\<close>

lemma py_slice_to_take: "0 \<le> k \<Longrightarrow> py_slice_to xs k = take (nat k) xs"
  by (auto simp: py_slice_to_def slice_bound_def min_def)

lemma py_slice_from_last: "0 < k \<Longrightarrow> py_slice_from xs (- k) = drop (length xs - nat k) xs"
  by (auto simp: py_slice_from_def slice_bound_def max_def nat_diff_distrib'
           intro: arg_cong2[where f=drop])

lemma example_query_trace:
  "fst (query (RAGEngine_init []) example_services ''What is ROS 2?''
          (Some ''ROS 2 is a middleware.'') None (Some example_history))
   = [ChatCompletionsCreate
        \<lparr>cr_model = ''gpt-4o'',
         cr_messages = query_messages ''What is ROS 2?'' ''ROS 2 is a middleware.'' True
                         (Some example_history),
         cr_temperature = 7 / 10, cr_max_tokens = 1000\<rparr>]"
  by (simp add: query_def query_context_def Let_def RAGEngine_init_def dict_get_def)

text \<open>
  C9. When \<open>selected_text\<close> is given and not empty, the calls of \<open>query\<close> are exactly one
  chat-completion request: no embedding call and no vector search. The user message of
  that request is formatted from the selected text alone. A reply, when there is one, has
  \<open>context_used = True\<close> and exactly one source, of type \<open>selected_text\<close>, whose content is
  the first 200 characters of the selected text; there is a reply unless the chat call
  fails or has no choice.
\<close>

theorem query_selected_text_only:
  assumes "s \<noteq> []"
  shows "\<exists>req. fst (query eng sv q (Some s) url h) = [ChatCompletionsCreate req]
           \<and> last (cr_messages req) = [(''role'', ''user''), (''content'', format_query q s True)]
           \<and> (case snd (query eng sv q (Some s) url h) of
                 Inl e \<Rightarrow> (\<exists>partial. chat_completions_create sv req = Interrupted partial e)
                          \<or> (chat_completions_create sv req = Completed [] \<and> e = IndexError)
               | Inr r \<Rightarrow> context_used r \<and> sources r = [SelectedText (take 200 s)]
                          \<and> (\<exists>rest. chat_completions_create sv req = Completed (answer r # rest)))"
  using assms
  by (auto simp: query_def query_context_def Let_def query_messages_def py_slice_to_take
           split: llm_outcome.splits list.splits)

theorem query_selected_text_only_witness:
  "''ROS 2 is a middleware.'' \<noteq> [] \<and>
   query (RAGEngine_init []) example_services ''What is ROS 2?''
     (Some ''ROS 2 is a middleware.'') None None
     = ([ChatCompletionsCreate
           \<lparr>cr_model = ''gpt-4o'',
            cr_messages = query_messages ''What is ROS 2?'' ''ROS 2 is a middleware.'' True None,
            cr_temperature = 7 / 10, cr_max_tokens = 1000\<rparr>],
        Inr \<lparr>answer = ''ROS 2 is a middleware.'',
             sources = [SelectedText ''ROS 2 is a middleware.''],
             context_used = True\<rparr>)"
proof -
  have ne: "''ROS 2 is a middleware.'' \<noteq> []" by simp
  from query_selected_text_only[OF ne, of "RAGEngine_init []" example_services
         "''What is ROS 2?''" None None]
  obtain req where
    t: "fst (query (RAGEngine_init []) example_services ''What is ROS 2?''
               (Some ''ROS 2 is a middleware.'') None None) = [ChatCompletionsCreate req]"
    and r: "(case snd (query (RAGEngine_init []) example_services ''What is ROS 2?''
                         (Some ''ROS 2 is a middleware.'') None None) of
               Inl e \<Rightarrow> (\<exists>partial. chat_completions_create example_services req = Interrupted partial e)
                        \<or> (chat_completions_create example_services req = Completed [] \<and> e = IndexError)
             | Inr r \<Rightarrow> context_used r \<and> sources r = [SelectedText (take 200 ''ROS 2 is a middleware.'')]
                        \<and> (\<exists>rest. chat_completions_create example_services req = Completed (answer r # rest)))"
    by blast
  show ?thesis using t r
    by (simp add: query_def query_context_def Let_def RAGEngine_init_def dict_get_def
                  example_services_def py_slice_to_take)
qed

text \<open>
  C10. Every chat-completion request that \<open>query\<close> sends for a call with the history \<open>h\<close>
  has as messages the system message, then the last five messages of \<open>h\<close> in their order
  (all of \<open>h\<close> when it has fewer), then the user message: at most five history messages,
  however long \<open>h\<close> is.
\<close>

theorem query_history_last_five:
  assumes "ChatCompletionsCreate req \<in> set (fst (query eng sv q sel url (Some h)))"
  shows "\<exists>sysm usrm. cr_messages req = sysm # drop (length h - 5) h @ [usrm]
           \<and> map_of sysm ''role'' = Some ''system'' \<and> map_of usrm ''role'' = Some ''user''
           \<and> length (drop (length h - 5) h) = min 5 (length h)"
  using assms
  by (auto simp: query_def query_context_def search_def get_embedding_def Let_def
                 query_messages_def py_slice_from_last
           split: prod.splits sum.splits option.splits if_splits list.splits)

theorem query_history_last_five_witness:
  "ChatCompletionsCreate
     \<lparr>cr_model = ''gpt-4o'',
      cr_messages = query_messages ''What is ROS 2?'' ''ROS 2 is a middleware.'' True
                      (Some example_history),
      cr_temperature = 7 / 10, cr_max_tokens = 1000\<rparr>
     \<in> set (fst (query (RAGEngine_init []) example_services ''What is ROS 2?''
                   (Some ''ROS 2 is a middleware.'') None (Some example_history)))
   \<and> (\<exists>sysm usrm.
         query_messages ''What is ROS 2?'' ''ROS 2 is a middleware.'' True (Some example_history)
           = sysm # drop 2 example_history @ [usrm]
         \<and> map_of sysm ''role'' = Some ''system'' \<and> map_of usrm ''role'' = Some ''user''
         \<and> length (drop 2 example_history) = 5)"
proof -
  have h: "ChatCompletionsCreate
     \<lparr>cr_model = ''gpt-4o'',
      cr_messages = query_messages ''What is ROS 2?'' ''ROS 2 is a middleware.'' True
                      (Some example_history),
      cr_temperature = 7 / 10, cr_max_tokens = 1000\<rparr>
     \<in> set (fst (query (RAGEngine_init []) example_services ''What is ROS 2?''
                   (Some ''ROS 2 is a middleware.'') None (Some example_history)))"
    by (simp add: example_query_trace)
  have l: "length example_history = 7" by (simp add: example_history_def)
  from query_history_last_five[OF h] l h show ?thesis by simp
qed

section \<open>Properties of the vector search\<close>

lemma map_result_Inr:
  "map_result f xs = Inr ys \<Longrightarrow> list_all2 (\<lambda>x y. f x = Inr y) xs ys"
  by (induction xs arbitrary: ys) (auto split: sum.splits)

lemma hit_result_fields:
  "hit_result h = Inr r \<Longrightarrow>
     doc_score r = hit_score h \<and> doc_url r = dict_get (hit_payload h) ''url'' []"
  by (auto simp: hit_result_def split: sum.splits)

lemma hits_results_fields:
  "list_all2 (\<lambda>x y. hit_result x = Inr y) hits rs \<Longrightarrow>
     map doc_score rs = map hit_score hits \<and>
     map doc_url rs = map (\<lambda>h. dict_get (hit_payload h) ''url'' []) hits"
  by (induction hits rs rule: list_all2_induct) (auto dest: hit_result_fields)

lemma example_services_contract:
  "\<forall>p hits. qdrant_search example_services p = Inr hits \<longrightarrow>
     int (length hits) \<le> sp_limit p \<and> sorted_wrt (\<lambda>a b. hit_score b \<le> hit_score a) hits"
proof (intro allI impI)
  fix p hits
  assume "qdrant_search example_services p = Inr hits"
  then have h: "hits = take (nat (sp_limit p)) example_hits" and l: "0 \<le> sp_limit p"
    by (auto simp: example_services_def split: if_splits)
  have "sorted_wrt (\<lambda>a b. hit_score b \<le> hit_score a) example_hits"
    by (simp add: example_hits_def)
  then have "sorted_wrt (\<lambda>a b. hit_score b \<le> hit_score a) hits"
    unfolding h by (rule sorted_wrt_take)
  moreover have "int (length hits) \<le> sp_limit p" using l by (simp add: h)
  ultimately show "int (length hits) \<le> sp_limit p
      \<and> sorted_wrt (\<lambda>a b. hit_score b \<le> hit_score a) hits" by simp
qed

text \<open>
  C1. \<open>search\<close> embeds the query, sends one search request with the given limit to the
  Qdrant client and turns each hit into a result, in the client's order. The ranking is
  the client's: whenever the client answers a request with at most \<open>limit\<close> hits in
  non-increasing score order, every list that \<open>search\<close> returns has at most \<open>limit\<close>
  results, in non-increasing score order, and each result carries the score and the
  source (\<open>url\<close>) of the corresponding hit.
\<close>

theorem search_at_most_k_descending:
  assumes contract:
      "\<forall>p hits. qdrant_search sv p = Inr hits \<longrightarrow>
         int (length hits) \<le> sp_limit p \<and> sorted_wrt (\<lambda>a b. hit_score b \<le> hit_score a) hits"
    and ret: "snd (search vs sv qtext limit flt) = Inr rs"
  shows "int (length rs) \<le> limit
       \<and> sorted_wrt (\<lambda>a b. doc_score b \<le> doc_score a) rs
       \<and> (\<exists>p hits. qdrant_search sv p = Inr hits \<and> sp_limit p = limit
             \<and> map doc_score rs = map hit_score hits
             \<and> map doc_url rs = map (\<lambda>h. dict_get (hit_payload h) ''url'' []) hits)"
proof -
  from ret obtain qv hits where
    h0: "qdrant_search sv \<lparr>sp_collection_name = collection_name vs, sp_query_vector = qv,
             sp_limit = limit,
             sp_query_filter = (case flt of None \<Rightarrow> None
               | Some d \<Rightarrow> if d = [] then None else Some d)\<rparr> = Inr hits"
    and m: "map_result hit_result hits = Inr rs"
    by (auto simp: search_def get_embedding_def Let_def split: sum.splits list.splits)
  define p where "p = \<lparr>sp_collection_name = collection_name vs, sp_query_vector = qv,
             sp_limit = limit,
             sp_query_filter = (case flt of None \<Rightarrow> None
               | Some d \<Rightarrow> if d = [] then None else Some d)\<rparr>"
  have p: "sp_limit p = limit" by (simp add: p_def)
  have h: "qdrant_search sv p = Inr hits" using h0 by (simp add: p_def)
  from contract h p have len: "int (length hits) \<le> limit"
    and srt: "sorted_wrt (\<lambda>a b. hit_score b \<le> hit_score a) hits" by auto
  from m have la: "list_all2 (\<lambda>x y. hit_result x = Inr y) hits rs" by (rule map_result_Inr)
  then have l: "length rs = length hits" by (simp add: list_all2_lengthD)
  from la have f: "map doc_score rs = map hit_score hits"
    "map doc_url rs = map (\<lambda>h. dict_get (hit_payload h) ''url'' []) hits"
    using hits_results_fields by blast+
  from srt have "sorted_wrt (\<lambda>a b. b \<le> a) (map hit_score hits)" by (simp add: sorted_wrt_map)
  then have "sorted_wrt (\<lambda>a b. b \<le> a) (map doc_score rs)" by (simp add: f)
  then have s: "sorted_wrt (\<lambda>a b. doc_score b \<le> doc_score a) rs" by (simp add: sorted_wrt_map)
  show ?thesis using len l s p h f by auto
qed

lemma example_search:
  "snd (search (VectorStore_init []) example_services ''What is ROS 2?'' 5 None)
     = Inr [\<lparr>doc_content = ''ROS 2 is a middleware.'', doc_title = ''ROS 2 basics'',
              doc_url = ''https://site/docs/module-1/ros2-basics'', doc_score = 9 / 10,
              doc_metadata = \<lparr>meta_module = [], meta_chapter = []\<rparr>\<rparr>,
            \<lparr>doc_content = ''Nodes talk over topics.'', doc_title = ''Nodes'',
              doc_url = ''https://site/docs/module-1/nodes-topics'', doc_score = 1 / 2,
              doc_metadata = \<lparr>meta_module = [], meta_chapter = []\<rparr>\<rparr>]"
  by (simp add: search_def get_embedding_def example_services_def example_hits_def
                hit_result_def dict_item_def dict_get_def Let_def)

theorem search_at_most_k_descending_witness:
  "snd (search (VectorStore_init []) example_services ''What is ROS 2?'' 5 None)
     = Inr [\<lparr>doc_content = ''ROS 2 is a middleware.'', doc_title = ''ROS 2 basics'',
              doc_url = ''https://site/docs/module-1/ros2-basics'', doc_score = 9 / 10,
              doc_metadata = \<lparr>meta_module = [], meta_chapter = []\<rparr>\<rparr>,
            \<lparr>doc_content = ''Nodes talk over topics.'', doc_title = ''Nodes'',
              doc_url = ''https://site/docs/module-1/nodes-topics'', doc_score = 1 / 2,
              doc_metadata = \<lparr>meta_module = [], meta_chapter = []\<rparr>\<rparr>]
   \<and> int (length
        [\<lparr>doc_content = ''ROS 2 is a middleware.'', doc_title = ''ROS 2 basics'',
              doc_url = ''https://site/docs/module-1/ros2-basics'', doc_score = 9 / 10,
              doc_metadata = \<lparr>meta_module = [], meta_chapter = []\<rparr>\<rparr>,
            \<lparr>doc_content = ''Nodes talk over topics.'', doc_title = ''Nodes'',
              doc_url = ''https://site/docs/module-1/nodes-topics'', doc_score = 1 / 2,
              doc_metadata = \<lparr>meta_module = [], meta_chapter = []\<rparr>\<rparr>]) \<le> 5
   \<and> sorted_wrt (\<lambda>a b. doc_score b \<le> doc_score a)
        [\<lparr>doc_content = ''ROS 2 is a middleware.'', doc_title = ''ROS 2 basics'',
              doc_url = ''https://site/docs/module-1/ros2-basics'', doc_score = 9 / 10,
              doc_metadata = \<lparr>meta_module = [], meta_chapter = []\<rparr>\<rparr>,
            \<lparr>doc_content = ''Nodes talk over topics.'', doc_title = ''Nodes'',
              doc_url = ''https://site/docs/module-1/nodes-topics'', doc_score = 1 / 2,
              doc_metadata = \<lparr>meta_module = [], meta_chapter = []\<rparr>\<rparr>]"
  using search_at_most_k_descending[OF example_services_contract example_search] example_search
  by simp

section \<open>Properties of the chunker\<close>

lemma split_words_nonempty: "w \<in> set (split_words acc s) \<Longrightarrow> w \<noteq> []"
  by (induction s arbitrary: acc) (auto split: if_splits)

lemma py_split_nonempty: "w \<in> set (py_split s) \<Longrightarrow> w \<noteq> []"
  unfolding py_split_def by (rule split_words_nonempty)

lemma length_py_join:
  "ws \<noteq> [] \<Longrightarrow>
     length (py_join sep ws) = sum_list (map length ws) + (length ws - 1) * length sep"
  by (induction sep ws rule: py_join.induct) auto

lemma sum_list_length_ge:
  "(\<forall>w \<in> set ws. w \<noteq> []) \<Longrightarrow> length ws \<le> sum_list (map length ws)"
proof (induction ws)
  case Nil
  then show ?case by simp
next
  case (Cons w ws)
  then have "1 \<le> length w" by (cases w) auto
  with Cons show ?case by auto
qed

lemma length_join_words:
  assumes "\<forall>w \<in> set ws. w \<noteq> []" "ws \<noteq> []"
  shows "2 * length ws - 1 \<le> length (py_join '' '' ws)"
  using sum_list_length_ge[OF assms(1)] assms(2) by (cases ws) (auto simp: length_py_join)

lemma py_slice_window:
  assumes "0 \<le> j" "j < int (length xs)" "0 < n"
  shows "py_slice xs j (j + n) = take (nat n) (drop (nat j) xs)"
  using assms
  by (auto simp: py_slice_def slice_bound_def Let_def min_def intro!: arg_cong2[where f=take])

text \<open>
  With a positive step the loop of \<open>_chunk_text\<close> ends. It appends one chunk per
  position \<open>j = i, i + step, ...\<close> below the number of words; a chunk that is not the last
  one starts more than a step before the end.
\<close>

lemma chunk_loop_spec:
  assumes step: "0 < csize - coverlap"
  shows "\<exists>cs. chunk_loop csize coverlap words i chunks = Some (chunks @ cs)
           \<and> (cs = [] \<longleftrightarrow> \<not> i < int (length words))
           \<and> (\<forall>k < length cs. \<exists>j. i \<le> j \<and> j < int (length words)
                  \<and> cs ! k = py_join '' '' (py_slice words j (j + csize))
                  \<and> (Suc k < length cs \<longrightarrow> j + (csize - coverlap) < int (length words)))"
proof (induction "nat (int (length words) - i)" arbitrary: i chunks rule: less_induct)
  case less
  show ?case
  proof (cases "i < int (length words)")
    case False
    then show ?thesis by (subst chunk_loop.simps) simp
  next
    case True
    let ?c = "py_join '' '' (py_slice words i (i + csize))"
    let ?i' = "i + (csize - coverlap)"
    have "nat (int (length words) - ?i') < nat (int (length words) - i)"
      using True step by linarith
    from less[OF this, of "chunks @ [?c]"] obtain cs where
      eq: "chunk_loop csize coverlap words ?i' (chunks @ [?c]) = Some ((chunks @ [?c]) @ cs)"
      and emp: "cs = [] \<longleftrightarrow> \<not> ?i' < int (length words)"
      and el: "\<forall>k < length cs. \<exists>j. ?i' \<le> j \<and> j < int (length words)
                  \<and> cs ! k = py_join '' '' (py_slice words j (j + csize))
                  \<and> (Suc k < length cs \<longrightarrow> j + (csize - coverlap) < int (length words))"
      by blast
    have r: "chunk_loop csize coverlap words i chunks = Some (chunks @ (?c # cs))"
      using True eq by (subst chunk_loop.simps) simp
    have "\<exists>j. i \<le> j \<and> j < int (length words)
                  \<and> (?c # cs) ! k = py_join '' '' (py_slice words j (j + csize))
                  \<and> (Suc k < length (?c # cs) \<longrightarrow> j + (csize - coverlap) < int (length words))"
      if k: "k < length (?c # cs)" for k
    proof (cases k)
      case 0
      show ?thesis using True emp by (intro exI[of _ i]) (auto simp: 0)
    next
      case (Suc k')
      with k have "k' < length cs" by simp
      with el obtain j where "?i' \<le> j" "j < int (length words)"
         "cs ! k' = py_join '' '' (py_slice words j (j + csize))"
         "Suc k' < length cs \<longrightarrow> j + (csize - coverlap) < int (length words)" by blast
      then show ?thesis using step by (intro exI[of _ j]) (auto simp: Suc)
    qed
    with r True show ?thesis by (intro exI[of _ "?c # cs"]) simp
  qed
qed

lemma chunk_text_default_spec:
  "\<exists>cs. chunk_text DocumentProcessor_default s = Some cs
     \<and> (\<forall>k < length cs. \<exists>j. 0 \<le> j \<and> j < int (length (py_split s))
            \<and> cs ! k = py_join '' '' (take 1000 (drop (nat j) (py_split s)))
            \<and> (Suc k < length cs \<longrightarrow> j + 800 < int (length (py_split s))))"
proof -
  have "(0::int) < 1000 - 200" by simp
  from chunk_loop_spec[OF this, of "py_split s" 0 "[]"] obtain cs where
    eq: "chunk_loop 1000 200 (py_split s) 0 [] = Some cs"
    and el: "\<forall>k < length cs. \<exists>j. 0 \<le> j \<and> j < int (length (py_split s))
                  \<and> cs ! k = py_join '' '' (py_slice (py_split s) j (j + 1000))
                  \<and> (Suc k < length cs \<longrightarrow> j + (1000 - 200) < int (length (py_split s)))"
    by auto
  have "\<exists>j. 0 \<le> j \<and> j < int (length (py_split s))
            \<and> cs ! k = py_join '' '' (take 1000 (drop (nat j) (py_split s)))
            \<and> (Suc k < length cs \<longrightarrow> j + 800 < int (length (py_split s)))"
    if "k < length cs" for k
  proof -
    from el that obtain j where j: "0 \<le> j" "j < int (length (py_split s))"
      "cs ! k = py_join '' '' (py_slice (py_split s) j (j + 1000))"
      "Suc k < length cs \<longrightarrow> j + (1000 - 200) < int (length (py_split s))" by blast
    have "py_slice (py_split s) j (j + 1000) = take (nat 1000) (drop (nat j) (py_split s))"
      using j(1,2) by (intro py_slice_window) auto
    with j show ?thesis by (intro exI[of _ j]) auto
  qed
  with eq show ?thesis
    by (auto simp: chunk_text_def DocumentProcessor_default_def DocumentProcessor_init_def)
qed

text \<open>A page of 801 two-letter words: its first chunk holds all of them.\<close>

lemma py_split_ab: "py_split (concat (replicate n ''ab '')) = replicate n ''ab''"
  unfolding py_split_def
  by (induction n) (simp_all add: is_space_def)

lemma chunk_text_ab:
  "chunk_text DocumentProcessor_default (concat (replicate 801 ''ab ''))
     = Some [py_join '' '' (replicate 801 ''ab''), ''ab'']"
  unfolding chunk_text_def DocumentProcessor_default_def DocumentProcessor_init_def py_split_ab
  apply simp
  apply (subst chunk_loop.simps, simp)
  apply (subst chunk_loop.simps, simp)
  apply (subst chunk_loop.simps, simp)
  apply (simp add: py_slice_def slice_bound_def)
  done

lemma length_join_ab: "length (py_join '' '' (replicate 801 ''ab'')) = 2402"
  by (simp add: length_py_join sum_list_replicate)

text \<open>
  C2, as the claim states it, fails: the chunk size is counted in words, not in
  characters. For a page of 801 two-letter words the default processor returns two
  chunks, and the first, which is not the final one, has 2402 characters.
\<close>

theorem chunk_text_exceeds_2000:
  "chunk_text DocumentProcessor_default (concat (replicate 801 ''ab ''))
     = Some [py_join '' '' (replicate 801 ''ab''), ''ab'']
   \<and> length (py_join '' '' (replicate 801 ''ab'')) = 2402
   \<and> \<not> length (py_join '' '' (replicate 801 ''ab'')) \<le> 2000"
  by (simp add: chunk_text_ab length_join_ab)

text \<open>
  C2, amended. For every text the default processor (\<open>chunk_size = 1000\<close>,
  \<open>chunk_overlap = 200\<close>) returns, and every chunk is the words of a run of at least one
  and at most 1000 consecutive words of the text, joined by single spaces. Every chunk
  but the final one has at least 801 words and so at least 1601 characters (more than
  the 200 of the claim).
\<close>

theorem chunk_text_word_bounds:
  "\<exists>cs. chunk_text DocumentProcessor_default s = Some cs
     \<and> (\<forall>k < length cs. \<exists>ws. cs ! k = py_join '' '' ws \<and> sublist ws (py_split s)
            \<and> 1 \<le> length ws \<and> length ws \<le> 1000
            \<and> (Suc k < length cs \<longrightarrow> 801 \<le> length ws \<and> 1601 \<le> length (cs ! k)))"
proof -
  from chunk_text_default_spec[of s] obtain cs where
    eq: "chunk_text DocumentProcessor_default s = Some cs"
    and el: "\<forall>k < length cs. \<exists>j. 0 \<le> j \<and> j < int (length (py_split s))
            \<and> cs ! k = py_join '' '' (take 1000 (drop (nat j) (py_split s)))
            \<and> (Suc k < length cs \<longrightarrow> j + 800 < int (length (py_split s)))" by blast
  have "\<exists>ws. cs ! k = py_join '' '' ws \<and> sublist ws (py_split s)
            \<and> 1 \<le> length ws \<and> length ws \<le> 1000
            \<and> (Suc k < length cs \<longrightarrow> 801 \<le> length ws \<and> 1601 \<le> length (cs ! k))"
    if "k < length cs" for k
  proof -
    from el that obtain j where j: "0 \<le> j" "j < int (length (py_split s))"
      "cs ! k = py_join '' '' (take 1000 (drop (nat j) (py_split s)))"
      "Suc k < length cs \<longrightarrow> j + 800 < int (length (py_split s))" by blast
    let ?ws = "take 1000 (drop (nat j) (py_split s))"
    have sub: "sublist ?ws (py_split s)"
      by (metis append_take_drop_id sublist_appendI)
    have len: "length ?ws = min 1000 (length (py_split s) - nat j)" by simp
    have ge1: "1 \<le> length ?ws" using j(1,2) by (simp add: len)
    have ne: "\<forall>w \<in> set ?ws. w \<noteq> []"
      using py_split_nonempty by (meson in_set_dropD in_set_takeD)
    have nonfinal: "801 \<le> length ?ws \<and> 1601 \<le> length (cs ! k)" if "Suc k < length cs"
    proof -
      from j(4) that have "j + 800 < int (length (py_split s))" by simp
      with j(1) have l: "801 \<le> length ?ws" by (simp add: len)
      then have "?ws \<noteq> []" by auto
      from length_join_words[OF ne this] l have "1601 \<le> length (py_join '' '' ?ws)"
        by linarith
      with l j(3) show ?thesis by simp
    qed
    show ?thesis using j(3) sub ge1 nonfinal by (intro exI[of _ ?ws]) auto
  qed
  with eq show ?thesis by blast
qed

theorem chunk_text_word_bounds_witness:
  "chunk_text DocumentProcessor_default (concat (replicate 801 ''ab ''))
     = Some [py_join '' '' (replicate 801 ''ab''), ''ab'']
   \<and> Suc 0 < length [py_join '' '' (replicate 801 ''ab''), ''ab'']
   \<and> 1601 \<le> length (py_join '' '' (replicate 801 ''ab''))"
proof -
  from chunk_text_word_bounds[of "concat (replicate 801 ''ab '')"] obtain cs where
    eq: "chunk_text DocumentProcessor_default (concat (replicate 801 ''ab '')) = Some cs"
    and el: "\<forall>k < length cs. \<exists>ws. cs ! k = py_join '' '' ws
            \<and> sublist ws (py_split (concat (replicate 801 ''ab '')))
            \<and> 1 \<le> length ws \<and> length ws \<le> 1000
            \<and> (Suc k < length cs \<longrightarrow> 801 \<le> length ws \<and> 1601 \<le> length (cs ! k))" by blast
  from eq have cs: "cs = [py_join '' '' (replicate 801 ''ab''), ''ab'']"
    by (simp add: chunk_text_ab)
  then have "0 < length cs" "Suc 0 < length cs" by simp_all
  with el have "1601 \<le> length (cs ! 0)" by blast
  then show ?thesis by (simp add: cs chunk_text_ab)
qed

section \<open>The query without retrieved chunks, and failures\<close>

text \<open>
  C3, as the claim states it, fails: there is no disclaimer path. With an empty
  collection the engine sends the general system prompt, the one it also sends when
  chunks are found, and a user message with the textbook-context header over an empty
  context; the answer is the model's text as it is.
\<close>

theorem query_no_chunks_no_disclaimer:
  "query (RAGEngine_init []) empty_store_services ''What is ROS 2?'' None None None
     = ([EmbeddingsCreate ''text-embedding-3-small'' ''What is ROS 2?'',
         QdrantSearch \<lparr>sp_collection_name = ''physical_ai_textbook'', sp_query_vector = [1, 0, 0],
                       sp_limit = 5, sp_query_filter = None\<rparr>,
         ChatCompletionsCreate
           \<lparr>cr_model = ''gpt-4o'',
            cr_messages =
              [ [(''role'', ''system''), (''content'', get_system_prompt False)],
               [(''role'', ''user''), (''content'', ''Context from textbook:\<newline>\<newline>\<newline>Question: What is ROS 2?\<newline>\<newline>Please provide a helpful answer based on the context above.'')] ],
            cr_temperature = 7 / 10, cr_max_tokens = 1000\<rparr>],
        Inr \<lparr>answer = ''ROS 2 is a middleware.'', sources = [], context_used = False\<rparr>)"
  by (simp add: query_def query_context_def search_def get_embedding_def Let_def
        RAGEngine_init_def VectorStore_init_def dict_get_def empty_store_services_def
        example_services_def query_messages_def format_query_def retrieved_context_def
        retrieved_sources_def)

text \<open>
  C3, amended. When no text is selected and the search returns zero chunks, \<open>query\<close>
  sends one chat request whose first message is the general system prompt (the prompt of
  every query without selected text, whatever its context: it asks to use the provided
  textbook context) and whose last message is the user message with the header
  \<open>Context from textbook:\<close> over an empty context. The reply has no sources,
  \<open>context_used = False\<close>, and as answer the model's first choice, unchanged.
\<close>

theorem query_no_chunks:
  assumes "sel = None \<or> sel = Some []"
    and "search (vector_store eng) sv q 5 None = (t, Inr [])"
  shows "query eng sv q sel url h =
           (t @ [ChatCompletionsCreate
                  \<lparr>cr_model = model eng,
                   cr_messages = query_messages q [] False h,
                   cr_temperature = 7 / 10, cr_max_tokens = 1000\<rparr>],
            (case chat_completions_create sv
                    \<lparr>cr_model = model eng,
                     cr_messages = query_messages q [] False h,
                     cr_temperature = 7 / 10, cr_max_tokens = 1000\<rparr> of
               Interrupted partial e \<Rightarrow> Inl e
             | Completed [] \<Rightarrow> Inl IndexError
             | Completed (a # rest) \<Rightarrow> Inr \<lparr>answer = a, sources = [], context_used = False\<rparr>))
       \<and> (\<forall>c. hd (query_messages q c False h)
                = [(''role'', ''system''), (''content'', get_system_prompt False)])
       \<and> last (query_messages q [] False h) =
            [(''role'', ''user''), (''content'', ''Context from textbook:\<newline>\<newline>\<newline>Question: '' @ q @
                       ''\<newline>\<newline>Please provide a helpful answer based on the context above.'')]"
  using assms
  by (auto simp: query_def query_context_def Let_def query_messages_def format_query_def
        retrieved_context_def retrieved_sources_def split: llm_outcome.splits list.splits)

lemma empty_store_search:
  "search (vector_store (RAGEngine_init [])) empty_store_services ''What is ROS 2?'' 5 None
     = ([EmbeddingsCreate ''text-embedding-3-small'' ''What is ROS 2?'',
         QdrantSearch \<lparr>sp_collection_name = ''physical_ai_textbook'', sp_query_vector = [1, 0, 0],
                       sp_limit = 5, sp_query_filter = None\<rparr>],
        Inr [])"
  by (simp add: search_def get_embedding_def Let_def RAGEngine_init_def VectorStore_init_def
        dict_get_def empty_store_services_def example_services_def)

theorem query_no_chunks_witness:
  "search (vector_store (RAGEngine_init [])) empty_store_services ''What is ROS 2?'' 5 None
     = ([EmbeddingsCreate ''text-embedding-3-small'' ''What is ROS 2?'',
         QdrantSearch \<lparr>sp_collection_name = ''physical_ai_textbook'', sp_query_vector = [1, 0, 0],
                       sp_limit = 5, sp_query_filter = None\<rparr>],
        Inr [])
   \<and> snd (query (RAGEngine_init []) empty_store_services ''What is ROS 2?'' None None None)
     = Inr \<lparr>answer = ''ROS 2 is a middleware.'', sources = [], context_used = False\<rparr>"
proof -
  have n: "(None :: string option) = None \<or> (None :: string option) = Some []" by simp
  from query_no_chunks[OF n empty_store_search, of None None] empty_store_search
  show ?thesis by (simp add: empty_store_services_def example_services_def)
qed

text \<open>
  C7, as the claim states it, fails: \<open>query\<close> has no handler around the search. With an
  embedding API that is down, the request ends after the embedding call, without a chat
  call, and the endpoint answers HTTP 500.
\<close>

theorem search_failure_surfaces_500:
  "post_api_query (RAGEngine_init []) failing_search_services [] example_request
     = ([EmbeddingsCreate ''text-embedding-3-small'' ''What is ROS 2?''],
        HTTPException 500 ''Query processing failed: embedding service unavailable'')"
  by (simp add: post_api_query_def query_textbook_def query_def query_context_def search_def
        get_embedding_def failing_search_services_def example_services_def example_request_def)

lemma search_trace_no_chat:
  "ChatCompletionsCreate r \<notin> set (fst (search vs sv q k f))"
  by (auto simp: search_def get_embedding_def Let_def split: sum.splits list.splits)

text \<open>
  C7, amended. When no text is selected and the vector search, or the embedding call it
  starts with, raises an error, \<open>query\<close> raises that error without calling the chat model,
  and the endpoint answers HTTP 500 with the detail \<open>Query processing failed: \<close> followed
  by the error's text.
\<close>

theorem query_search_failure_is_500:
  assumes "sel = None \<or> sel = Some []"
    and "search (vector_store eng) sv q 5 None = (t, Inl e)"
  shows "query eng sv q sel url h = (t, Inl e)
       \<and> query_textbook eng sv \<lparr>rq_question = q, rq_selected_text = sel, rq_context_url = url,
                                 rq_conversation_history = h\<rparr>
           = (t, HTTPException 500 (''Query processing failed: '' @ str_error e))
       \<and> (\<forall>r. ChatCompletionsCreate r \<notin> set t)"
proof -
  have q: "query eng sv q sel url h = (t, Inl e)"
    using assms by (auto simp: query_def query_context_def)
  have "\<forall>r. ChatCompletionsCreate r \<notin> set t"
    using search_trace_no_chat[of _ "vector_store eng" sv q 5 None] assms(2) by simp
  with q show ?thesis by (simp add: query_textbook_def)
qed

lemma failing_search:
  "search (vector_store (RAGEngine_init [])) failing_search_services ''What is ROS 2?'' 5 None
     = ([EmbeddingsCreate ''text-embedding-3-small'' ''What is ROS 2?''],
        Inl (ServiceError ''embedding service unavailable''))"
  by (simp add: search_def get_embedding_def failing_search_services_def example_services_def)

theorem query_search_failure_is_500_witness:
  "search (vector_store (RAGEngine_init [])) failing_search_services ''What is ROS 2?'' 5 None
     = ([EmbeddingsCreate ''text-embedding-3-small'' ''What is ROS 2?''],
        Inl (ServiceError ''embedding service unavailable''))
   \<and> query_textbook (RAGEngine_init []) failing_search_services
        \<lparr>rq_question = ''What is ROS 2?'', rq_selected_text = None, rq_context_url = None,
         rq_conversation_history = None\<rparr>
     = ([EmbeddingsCreate ''text-embedding-3-small'' ''What is ROS 2?''],
        HTTPException 500 ''Query processing failed: embedding service unavailable'')"
proof -
  have n: "(None :: string option) = None \<or> (None :: string option) = Some []" by simp
  from query_search_failure_is_500[OF n failing_search, of None None] failing_search
  show ?thesis by simp
qed

text \<open>
  C8, as the claim states it, fails: the chat call is not streamed. When the model fails
  after it has generated \<open>Hello\<close>, the endpoint answers HTTP 500, and the assistant message
  that the widget adds has no text at all: neither \<open>Hello\<close> nor an error note.
\<close>

theorem llm_failure_loses_partial_text:
  "snd (post_api_query (RAGEngine_init []) interrupted_services []
          (widget_request example_widget ''https://site/docs/intro''))
     = HTTPException 500 ''Query processing failed: connection reset''
   \<and> map wm_content
         (messages (sendMessage example_widget ''https://site/docs/intro''
            (\<lambda>rq. Some (snd (post_api_query (RAGEngine_init []) interrupted_services [] rq)))))
     = [Some ''What is ROS 2?'', None]"
  by (simp add: post_api_query_def query_textbook_def query_def query_context_def search_def
        get_embedding_def example_services_def interrupted_services_def example_hits_def
        hit_result_def dict_item_def dict_get_def Let_def RAGEngine_init_def VectorStore_init_def
        sendMessage_def widget_request_def example_widget_def js_trim_def js_space_def
        assistant_message_def undefined_message_def)

text \<open>
  C8, amended. The chat completion is one call that is not streamed: when the hosted
  model fails, the text it had generated does not reach the engine. The endpoint then
  answers HTTP 500 with the detail \<open>Query processing failed: \<close> followed by the text of
  the error (the retrieval's error when the retrieval has failed before), and no answer.
  When the widget's request itself throws, the widget adds the fixed assistant message
  \<open>Sorry, I encountered an error. Please try again.\<close>, marked as an error.
\<close>

theorem llm_failure_is_500:
  assumes "\<forall>r. \<exists>partial. chat_completions_create sv r = Interrupted partial e"
  shows "snd (query_textbook eng sv rq)
           = HTTPException 500
               (''Query processing failed: '' @
                str_error (case snd (query_context eng sv (rq_question rq) (rq_selected_text rq)) of
                             Inl e' \<Rightarrow> e' | Inr c \<Rightarrow> e))
       \<and> (js_trim (input w) \<noteq> [] \<and> \<not> isLoading w \<longrightarrow>
            last (messages (sendMessage w href (\<lambda>r. None)))
              = \<lparr>wm_role = ''assistant'',
                 wm_content = Some ''Sorry, I encountered an error. Please try again.'',
                 wm_sources = None, wm_context_used = None,
                 wm_selected_context = False, wm_error = True\<rparr>)"
proof -
  have "snd (query eng sv q sel url h)
          = Inl (case snd (query_context eng sv q sel) of Inl e' \<Rightarrow> e' | Inr c \<Rightarrow> e)"
    for q sel url h
  proof (cases "query_context eng sv q sel")
    case (Pair t r)
    show ?thesis
    proof (cases r)
      case (Inl e')
      with Pair show ?thesis by (simp add: query_def)
    next
      case (Inr c)
      obtain ctx srcs used where c: "c = (ctx, srcs, used)" by (cases c) auto
      from assms obtain p where
        "chat_completions_create sv
           \<lparr>cr_model = model eng, cr_messages = query_messages q ctx used h,
            cr_temperature = 7 / 10, cr_max_tokens = 1000\<rparr> = Interrupted p e"
        by blast
      with Pair Inr c show ?thesis by (simp add: query_def Let_def)
    qed
  qed
  from this[of "rq_question rq" "rq_selected_text rq" "rq_context_url rq"
              "rq_conversation_history rq"]
  have srv: "snd (query_textbook eng sv rq)
           = HTTPException 500
               (''Query processing failed: '' @
                str_error (case snd (query_context eng sv (rq_question rq) (rq_selected_text rq)) of
                             Inl e' \<Rightarrow> e' | Inr c \<Rightarrow> e))"
    by (cases "query eng sv (rq_question rq) (rq_selected_text rq) (rq_context_url rq)
                 (rq_conversation_history rq)")
       (simp add: query_textbook_def)
  have "js_trim (input w) \<noteq> [] \<and> \<not> isLoading w \<longrightarrow>
            last (messages (sendMessage w href (\<lambda>r. None)))
              = \<lparr>wm_role = ''assistant'',
                 wm_content = Some ''Sorry, I encountered an error. Please try again.'',
                 wm_sources = None, wm_context_used = None,
                 wm_selected_context = False, wm_error = True\<rparr>"
    by (simp add: sendMessage_def)
  with srv show ?thesis by simp
qed

theorem llm_failure_is_500_witness:
  "snd (query_textbook (RAGEngine_init []) interrupted_services example_request)
     = HTTPException 500 ''Query processing failed: connection reset''
   \<and> js_trim (input example_widget) \<noteq> [] \<and> \<not> isLoading example_widget
   \<and> last (messages (sendMessage example_widget ''https://site/docs/intro'' (\<lambda>r. None)))
       = \<lparr>wm_role = ''assistant'',
          wm_content = Some ''Sorry, I encountered an error. Please try again.'',
          wm_sources = None, wm_context_used = None,
          wm_selected_context = False, wm_error = True\<rparr>"
proof -
  have c: "\<forall>r. \<exists>partial. chat_completions_create interrupted_services r
                 = Interrupted partial (ServiceError ''connection reset'')"
    by (simp add: interrupted_services_def)
  have i: "js_trim (input example_widget) \<noteq> [] \<and> \<not> isLoading example_widget"
    by (simp add: example_widget_def js_trim_def js_space_def)
  have r: "snd (query_context (RAGEngine_init []) interrupted_services
                  (rq_question example_request) (rq_selected_text example_request))
           = Inr (retrieved_context
                    (map (\<lambda>h. \<lparr>doc_content = dict_get (hit_payload h) ''content'' [],
                                doc_title = dict_get (hit_payload h) ''title'' [],
                                doc_url = dict_get (hit_payload h) ''url'' [],
                                doc_score = hit_score h,
                                doc_metadata = \<lparr>meta_module = [], meta_chapter = []\<rparr>\<rparr>) example_hits),
                  retrieved_sources
                    (map (\<lambda>h. \<lparr>doc_content = dict_get (hit_payload h) ''content'' [],
                                doc_title = dict_get (hit_payload h) ''title'' [],
                                doc_url = dict_get (hit_payload h) ''url'' [],
                                doc_score = hit_score h,
                                doc_metadata = \<lparr>meta_module = [], meta_chapter = []\<rparr>\<rparr>) example_hits),
                  False)"
    by (simp add: query_context_def search_def get_embedding_def interrupted_services_def
          example_services_def example_request_def example_hits_def hit_result_def
          dict_item_def dict_get_def Let_def)
  from llm_failure_is_500[OF c, of "RAGEngine_init []" example_request example_widget
         "''https://site/docs/intro''"] i r
  show ?thesis by simp
qed

section \<open>The endpoint and the vector store's configuration\<close>

text \<open>
  C4, as the claim states it, fails: the endpoint checks no key. A request without an
  \<open>X-API-Key\<close> header is answered with 200, after the embedding, search and chat calls.
\<close>

theorem post_api_query_without_key:
  "post_api_query (RAGEngine_init []) example_services
       [(''Content-Type'', ''application/json'')] example_request
     = ([EmbeddingsCreate ''text-embedding-3-small'' ''What is ROS 2?'',
         QdrantSearch \<lparr>sp_collection_name = ''physical_ai_textbook'', sp_query_vector = [1, 0, 0],
                       sp_limit = 5, sp_query_filter = None\<rparr>,
         ChatCompletionsCreate
           \<lparr>cr_model = ''gpt-4o'',
            cr_messages = query_messages ''What is ROS 2?''
               (retrieved_context
                 [\<lparr>doc_content = ''ROS 2 is a middleware.'', doc_title = ''ROS 2 basics'',
                   doc_url = ''https://site/docs/module-1/ros2-basics'', doc_score = 9 / 10,
                   doc_metadata = \<lparr>meta_module = [], meta_chapter = []\<rparr>\<rparr>,
                  \<lparr>doc_content = ''Nodes talk over topics.'', doc_title = ''Nodes'',
                   doc_url = ''https://site/docs/module-1/nodes-topics'', doc_score = 1 / 2,
                   doc_metadata = \<lparr>meta_module = [], meta_chapter = []\<rparr>\<rparr>]) False (Some []),
            cr_temperature = 7 / 10, cr_max_tokens = 1000\<rparr>],
        Response200
          \<lparr>answer = ''ROS 2 is a middleware.'',
           sources = [Retrieved ''ROS 2 basics'' ''https://site/docs/module-1/ros2-basics''
                        ''ROS 2 is a middleware.'' (9 / 10),
                      Retrieved ''Nodes'' ''https://site/docs/module-1/nodes-topics''
                        ''Nodes talk over topics.'' (1 / 2)],
           context_used = False\<rparr>)
     \<and> map_of [(''Content-Type'', ''application/json'')] ''X-API-Key'' = None"
  by (simp add: post_api_query_def query_textbook_def query_def query_context_def search_def
        get_embedding_def example_services_def example_request_def example_hits_def
        hit_result_def dict_item_def dict_get_def Let_def RAGEngine_init_def VectorStore_init_def
        retrieved_sources_def py_slice_to_take)

text \<open>
  C4, amended. \<open>POST /api/query\<close> validates no API key: the headers of a request do not
  change its outcome, and the endpoint never answers 401. It answers 200 with the
  engine's reply, 422 to a body that fails validation, or 500 when the engine raises.
\<close>

theorem post_api_query_never_401:
  "post_api_query eng sv headers body = post_api_query eng sv [] body
   \<and> status_code (snd (post_api_query eng sv headers body)) \<noteq> 401
   \<and> (status_code (snd (post_api_query eng sv headers body)) = 200
      \<or> status_code (snd (post_api_query eng sv headers body)) = 422
      \<or> status_code (snd (post_api_query eng sv headers body)) = 500)"
  by (auto simp: post_api_query_def query_textbook_def split: prod.splits sum.splits)

text \<open>
  C5, as the claim states it, fails: the vector store is configured for 1536 dimensions,
  and the collection it creates has size 1536, not 768.
\<close>

theorem embedding_dimension_not_768:
  "embedding_dimension (VectorStore_init []) = 1536
   \<and> map_of (initialize (VectorStore_init []) []) ''physical_ai_textbook''
       = Some \<lparr>vectors_size = 1536, vectors_distance = COSINE, points = []\<rparr>
   \<and> (1536::nat) \<noteq> 768"
  by (simp add: VectorStore_init_def initialize_def dict_get_def)

text \<open>
  C5, amended. The vector store's embedding dimension is 1536 (the dimension of the
  model \<open>text-embedding-3-small\<close> that \<open>get_embedding\<close> asks for), and a collection that
  \<open>initialize\<close> creates has that size, with cosine distance. \<open>get_embedding\<close> makes one
  embedding call and returns the first vector of the reply as it is: the code does not
  check its length.
\<close>

theorem embedding_dimension_1536:
  "embedding_dimension (VectorStore_init env) = 1536
   \<and> (map_of q (collection_name (VectorStore_init env)) = None \<longrightarrow>
        map_of (initialize (VectorStore_init env) q) (collection_name (VectorStore_init env))
          = Some \<lparr>vectors_size = 1536, vectors_distance = COSINE, points = []\<rparr>)
   \<and> (embeddings_create sv ''text-embedding-3-small'' s = Inr (v # rest) \<longrightarrow>
        get_embedding sv s = ([EmbeddingsCreate ''text-embedding-3-small'' s], Inr v))"
  by (auto simp: VectorStore_init_def initialize_def get_embedding_def map_add_def
           split: option.splits)

theorem embedding_dimension_1536_witness:
  "map_of ([] :: qdrant) (collection_name (VectorStore_init [])) = None
   \<and> map_of (initialize (VectorStore_init []) []) (collection_name (VectorStore_init []))
          = Some \<lparr>vectors_size = 1536, vectors_distance = COSINE, points = []\<rparr>
   \<and> embeddings_create example_services ''text-embedding-3-small'' ''What is ROS 2?''
          = Inr ([1, 0, 0] # [])
   \<and> get_embedding example_services ''What is ROS 2?''
        = ([EmbeddingsCreate ''text-embedding-3-small'' ''What is ROS 2?''], Inr [1, 0, 0])"
  using embedding_dimension_1536[of "[]" "[]" example_services "''What is ROS 2?''"
          "[1, 0, 0]" "[]"]
  by (simp add: example_services_def)

section \<open>Ingestion\<close>

lemma build_points_sent:
  "build_points sv i docs = (t, Inr ps) \<Longrightarrow>
     map point_id ps
       = map (\<lambda>(j, doc). case map_of doc ''id'' of None \<Rightarrow> IntId j | Some s \<Rightarrow> StrId s)
           (enumerate i docs)
     \<and> map point_payload ps
       = map (\<lambda>doc. [(''content'', dict_get doc ''content'' []),
                      (''title'', dict_get doc ''title'' []),
                      (''url'', dict_get doc ''url'' []),
                      (''module'', dict_get doc ''module'' []),
                      (''chapter'', dict_get doc ''chapter'' [])]) docs"
proof (induction docs arbitrary: i t ps)
  case Nil
  then show ?case by simp
next
  case (Cons doc docs)
  from Cons.prems show ?case
    by (auto simp: Let_def dict_item_def dict_get_def
             split: sum.splits prod.splits option.splits dest: Cons.IH)
qed




lemma fold_update_distinct:
  "distinct (map fst al) \<Longrightarrow> distinct (map fst (fold (\<lambda>p. AList.update (point_id p) p) ps al))"
  by (induction ps arbitrary: al) (auto simp: distinct_update)






lemma upserted_append: "upserted (t @ t') = upserted t @ upserted t'"
  by (induction t rule: upserted.induct) auto

lemma build_points_upserted: "upserted (fst (build_points sv i docs)) = []"
proof (induction docs arbitrary: i)
  case Nil
  show ?case by simp
next
  case (Cons doc docs)
  show ?case
    using Cons.IH[of "Suc i"]
    by (auto simp: Let_def upserted_append get_embedding_def split: sum.splits prod.splits)
qed

text \<open>
  What a successful \<open>add_documents\<close> is: the points are built, the collection exists, the
  server accepts every point, and the new state is the old one with the points written
  over it by id.
\<close>

lemma add_documents_success:
  assumes "add_documents vs sv docs q = (t, Inr q')"
  obtains tp ps c where
    "build_points sv 0 docs = (tp, Inr ps)"
    and "t = tp @ [QdrantUpsert (collection_name vs) ps]"
    and "upserted t = ps"
    and "map_of q (collection_name vs) = Some c"
    and "list_all (\<lambda>p. valid_point_id (point_id p)) ps"
    and "list_all (\<lambda>p. length (point_vector p) = vectors_size c) ps"
    and "q' = AList.update (collection_name vs)
                (c\<lparr>points := fold (\<lambda>p. AList.update (point_id p) p) ps (points c)\<rparr>) q"
proof -
  from assms obtain tp ps c where
    b: "build_points sv 0 docs = (tp, Inr ps)"
    and t: "t = tp @ [QdrantUpsert (collection_name vs) ps]"
    and m: "map_of q (collection_name vs) = Some c"
    and v: "list_all (\<lambda>p. valid_point_id (point_id p)) ps"
    and l: "list_all (\<lambda>p. length (point_vector p) = vectors_size c) ps"
    and q': "q' = AList.update (collection_name vs)
                (c\<lparr>points := fold (\<lambda>p. AList.update (point_id p) p) ps (points c)\<rparr>) q"
    by (auto simp: add_documents_def qdrant_upsert_def
             split: option.splits prod.splits sum.splits if_splits)
  have "upserted tp = []" using build_points_upserted[of sv 0 docs] b by simp
  then have "upserted t = ps" by (simp add: t upserted_append)
  from b t this m v l q' show ?thesis by (rule that)
qed

lemma add_documents_keeps_distinct:
  assumes "add_documents vs sv docs q = (t, Inr q')"
    and "\<forall>c. map_of q (collection_name vs) = Some c \<longrightarrow> distinct (map fst (points c))"
  shows "\<forall>c. map_of q' (collection_name vs) = Some c \<longrightarrow> distinct (map fst (points c))"
proof -
  from assms(1) obtain tp ps c where
    "build_points sv 0 docs = (tp, Inr ps)"
    and "t = tp @ [QdrantUpsert (collection_name vs) ps]"
    and "upserted t = ps"
    and m: "map_of q (collection_name vs) = Some c"
    and "list_all (\<lambda>p. valid_point_id (point_id p)) ps"
    and "list_all (\<lambda>p. length (point_vector p) = vectors_size c) ps"
    and q': "q' = AList.update (collection_name vs)
                (c\<lparr>points := fold (\<lambda>p. AList.update (point_id p) p) ps (points c)\<rparr>) q"
    by (rule add_documents_success)
  from assms(2) m have "distinct (map fst (points c))" by simp
  then have "distinct (map fst (fold (\<lambda>p. AList.update (point_id p) p) ps (points c)))"
    by (rule fold_update_distinct)
  then show ?thesis by (simp add: q' update_conv')
qed

text \<open>
  The ids that \<open>process_url\<close> gives its chunks are not point ids the server accepts: an
  underscore occurs in no UUID. So a pass of \<open>ingest_documents\<close> that the server accepts
  has ingested no document.
\<close>

lemma split_on_concat: "concat (split_on sep s) = filter (\<lambda>c. c \<noteq> sep) s"
  by (induction s) (auto split: list.splits)

lemma uuid_hyphenated_chars:
  assumes "uuid_hyphenated s"
  shows "CHR ''_'' \<notin> set s"
proof
  assume "CHR ''_'' \<in> set s"
  then have "CHR ''_'' \<in> set (filter (\<lambda>c. c \<noteq> CHR ''-'') s)" by simp
  then have "CHR ''_'' \<in> set (concat (split_on CHR ''-'' s))" by (simp only: split_on_concat)
  then obtain w where "w \<in> set (split_on CHR ''-'' s)" and "CHR ''_'' \<in> set w" by auto
  moreover from assms have "\<forall>w \<in> set (split_on CHR ''-'' s). \<forall>c \<in> set w. is_hex c"
    by (simp add: uuid_hyphenated_def list_all_iff)
  ultimately have "is_hex CHR ''_''" by blast
  then show False by (simp add: is_hex_def)
qed

lemma is_uuid_chars:
  assumes "is_uuid s"
  shows "CHR ''_'' \<notin> set s"
proof -
  from assms consider "list_all is_hex s" | "uuid_hyphenated s"
    | "take 9 s = ''urn:uuid:''" and "uuid_hyphenated (drop 9 s)"
    by (auto simp: is_uuid_def)
  then show ?thesis
  proof cases
    case 1
    have "\<not> is_hex CHR ''_''" by (simp add: is_hex_def)
    with 1 show ?thesis by (auto simp: list_all_iff)
  next
    case 2
    then show ?thesis by (rule uuid_hyphenated_chars)
  next
    case 3
    from 3(2) have "CHR ''_'' \<notin> set (drop 9 s)" by (rule uuid_hyphenated_chars)
    moreover from 3(1) have "CHR ''_'' \<notin> set (take 9 s)" by simp
    moreover have "set s = set (take 9 s) \<union> set (drop 9 s)"
      by (metis append_take_drop_id set_append)
    ultimately show ?thesis by simp
  qed
qed

lemma chunk_id_rejected: "\<not> valid_point_id (StrId (url @ ''_'' @ str_nat i))"
proof
  assume "valid_point_id (StrId (url @ ''_'' @ str_nat i))"
  then have "is_uuid (url @ ''_'' @ str_nat i)" by simp
  then have "CHR ''_'' \<notin> set (url @ ''_'' @ str_nat i)" by (rule is_uuid_chars)
  then show False by (simp del: str_nat.simps)
qed

lemma chunk_documents_ids:
  "doc \<in> set (chunk_documents url title m c chunks) \<Longrightarrow>
     \<exists>i. map_of doc ''id'' = Some (url @ ''_'' @ str_nat i)"
  by (auto simp: chunk_documents_def simp del: str_nat.simps)

lemma process_url_docs:
  assumes "process_url dp sv url = Some (t, Inr docs)"
  shows "docs = [] \<or> (\<exists>title m c chunks. docs = chunk_documents url title m c chunks)"
proof (cases "http_get sv url")
  case (Inl e)
  with assms show ?thesis by (simp add: process_url_def)
next
  case (Inr html)
  show ?thesis
  proof (cases "page_main_text (parse_html sv html)")
    case None
    with assms Inr show ?thesis by (simp add: process_url_def Let_def)
  next
    case (Some raw)
    show ?thesis
    proof (cases "chunk_text dp (clean_text raw)")
      case None
      with assms Inr Some show ?thesis by (simp add: process_url_def Let_def)
    next
      case (Some chunks)
      with assms Inr \<open>page_main_text (parse_html sv html) = Some raw\<close>
      have "docs = chunk_documents url
                     (case page_title (parse_html sv html) of None \<Rightarrow> url | Some t \<Rightarrow> t)
                     (fst (find_module (split_on CHR ''/'' url)))
                     (snd (find_module (split_on CHR ''/'' url))) chunks"
        by (simp add: process_url_def Let_def)
      then show ?thesis by blast
    qed
  qed
qed

lemma process_url_ids:
  assumes "process_url dp sv url = Some (t, Inr docs)" and "doc \<in> set docs"
  shows "\<exists>s. map_of doc ''id'' = Some s \<and> \<not> valid_point_id (StrId s)"
proof -
  from process_url_docs[OF assms(1)] assms(2)
  obtain title m c chunks where "doc \<in> set (chunk_documents url title m c chunks)"
    by auto
  then obtain i where "map_of doc ''id'' = Some (url @ ''_'' @ str_nat i)"
    using chunk_documents_ids by blast
  with chunk_id_rejected[of url i] show ?thesis by (simp del: str_nat.simps)
qed

lemma collect_documents_ids:
  "collect_documents dp sv urls = Some (t, Inr docs) \<Longrightarrow> doc \<in> set docs \<Longrightarrow>
     \<exists>s. map_of doc ''id'' = Some s \<and> \<not> valid_point_id (StrId s)"
proof (induction urls arbitrary: t docs)
  case Nil
  then show ?case by simp
next
  case (Cons u us)
  from Cons.prems(1) obtain ta da tb db where
    p: "process_url dp sv u = Some (ta, Inr da)"
    and c: "collect_documents dp sv us = Some (tb, Inr db)"
    and d: "docs = da @ db"
    by (auto split: option.splits prod.splits sum.splits)
  from Cons.prems(2) d consider "doc \<in> set da" | "doc \<in> set db" by auto
  then show ?case
  proof cases
    case 1
    with p show ?thesis by (rule process_url_ids)
  next
    case 2
    with c show ?thesis by (rule Cons.IH)
  qed
qed

lemma ingest_documents_rejected:
  assumes "ingest_documents eng sv urls q = Some (t, Inr (n, q'))"
  shows "n = 0"
proof (rule ccontr)
  assume "n \<noteq> 0"
  from assms obtain ta tb docs where
    c: "collect_documents (doc_processor eng) sv urls = Some (ta, Inr docs)"
    and a: "add_documents (vector_store eng) sv docs q = (tb, Inr q')"
    and n: "n = length docs"
    by (auto simp: ingest_documents_def split: option.splits prod.splits sum.splits)
  from a obtain tp ps where
    b: "build_points sv 0 docs = (tp, Inr ps)"
    and v: "list_all (\<lambda>p. valid_point_id (point_id p)) ps"
    by (rule add_documents_success)
  from n \<open>n \<noteq> 0\<close> obtain doc rest where docs: "docs = doc # rest" by (cases docs) auto
  with c obtain s where s: "map_of doc ''id'' = Some s" and r: "\<not> valid_point_id (StrId s)"
    using collect_documents_ids[of "doc_processor eng" sv urls ta docs doc] by auto
  from build_points_sent[OF b] docs s obtain p ps' where "ps = p # ps'" and "point_id p = StrId s"
    by (cases ps) auto
  with v r show False by simp
qed



lemma add_three_chunks:
  "add_documents (VectorStore_init []) (ingest_services x)
      [source_chunk u c, source_chunk u d, source_chunk u e] (textbook [])
     = ([EmbeddingsCreate ''text-embedding-3-small'' c,
         EmbeddingsCreate ''text-embedding-3-small'' d,
         EmbeddingsCreate ''text-embedding-3-small'' e,
         QdrantUpsert ''physical_ai_textbook''
           [chunk_point 0 u c x, chunk_point 1 u d x, chunk_point 2 u e x] ],
        Inr (textbook [chunk_point 0 u c x, chunk_point 1 u d x, chunk_point 2 u e x]))"
  by (simp add: add_documents_def get_embedding_def ingest_services_def dict_item_def
        dict_get_def source_chunk_def qdrant_upsert_def textbook_def chunk_point_def
        VectorStore_init_def)






end
